theory Spec2Isabelle
  imports Complex_Main "HOL-Library.AList"
begin

unbundle bit_operations_syntax

section \<open>Schema\<close>

text \<open>
  The seventeen channel names of \<^verbatim>\<open>FIELDS\<close> (lines 25-44 of
  \<^verbatim>\<open>audi_logger_plot.py\<close>), in wire order.
\<close>

definition FIELDS :: "string list" where
  "FIELDS =
    [''log_index'', ''engine_rpm'', ''vehicle_speed'', ''gear'', ''torque'',
     ''oil_coolant_temperature'', ''EGT_bank1'', ''EGT_bank2'',
     ''intake_air_temperature'', ''oil_press'', ''fuel_press'', ''MAP_value'',
     ''exhaust_press_bank1'', ''exhaust_press_bank2'', ''U12V'', ''U5V'',
     ''faultword1'']"

definition N_FIELDS :: nat where
  "N_FIELDS = length FIELDS"

text \<open>
  A row is a Python \<^verbatim>\<open>dict\<close> from channel name to integer. A dict keeps its keys
  in insertion order and a later value for a key already present replaces the
  earlier one in place, so it is an association list built with \<open>AList.update\<close>.
\<close>

type_synonym row = "(string \<times> int) list"

definition py_dict :: "('k \<times> 'v) list \<Rightarrow> ('k \<times> 'v) list" where
  "py_dict ps = foldl (\<lambda>d (k, v). AList.update k v d) [] ps"

datatype error = KeyError | ValueError | ZeroDivisionError

definition getitem :: "('k \<times> 'v) list \<Rightarrow> 'k \<Rightarrow> error + 'v" where
  "getitem d k = (case map_of d k of None \<Rightarrow> Inl KeyError | Some v \<Rightarrow> Inr v)"

definition bindE :: "error + 'a \<Rightarrow> ('a \<Rightarrow> error + 'b) \<Rightarrow> error + 'b" where
  "bindE m f = (case m of Inl e \<Rightarrow> Inl e | Inr v \<Rightarrow> f v)"

section \<open>Bytes and text\<close>

text \<open>
  A line off the wire is a byte string (\<^typ>\<open>string\<close>, one \<^typ>\<open>char\<close> per
  byte). Python text is a sequence of Unicode code points, here natural numbers.
\<close>

type_synonym pystr = "nat list"

definition LF :: char where "LF = CHR 0x0A"
definition CR :: char where "CR = CHR 0x0D"

definition is_cont :: "nat \<Rightarrow> bool" where
  "is_cont b = (128 \<le> b \<and> b < 192)"

text \<open>
  \<^verbatim>\<open>bytes.decode(errors="ignore")\<close> with the default UTF-8 codec. A well-formed
  sequence yields its code point. An ill-formed one is dropped up to, and not
  including, the first byte that cannot continue it, and decoding resumes there;
  a sequence cut short by the end of the input is dropped whole. Overlong forms,
  surrogates and code points above U+10FFFF are ill-formed.
\<close>

fun utf8_ignore :: "nat list \<Rightarrow> pystr" where
  "utf8_ignore [] = []"
| "utf8_ignore (b # bs) =
    (if b < 128 then b # utf8_ignore bs
     else if b < 194 then utf8_ignore bs
     else if b < 224 then
       (case bs of
          [] \<Rightarrow> []
        | b2 # r2 \<Rightarrow>
            if is_cont b2 then ((b - 192) * 64 + (b2 - 128)) # utf8_ignore r2
            else utf8_ignore bs)
     else if b < 240 then
       (case bs of
          [] \<Rightarrow> []
        | b2 # r2 \<Rightarrow>
            if \<not> is_cont b2 \<or> (b = 224 \<and> b2 < 160) \<or> (b = 237 \<and> 160 \<le> b2)
            then utf8_ignore bs
            else
              (case r2 of
                 [] \<Rightarrow> []
               | b3 # r3 \<Rightarrow>
                   if is_cont b3
                   then ((b - 224) * 4096 + (b2 - 128) * 64 + (b3 - 128)) # utf8_ignore r3
                   else utf8_ignore r2))
     else if b < 245 then
       (case bs of
          [] \<Rightarrow> []
        | b2 # r2 \<Rightarrow>
            if \<not> is_cont b2 \<or> (b = 240 \<and> b2 < 144) \<or> (b = 244 \<and> 144 \<le> b2)
            then utf8_ignore bs
            else
              (case r2 of
                 [] \<Rightarrow> []
               | b3 # r3 \<Rightarrow>
                   if \<not> is_cont b3 then utf8_ignore r2
                   else
                     (case r3 of
                        [] \<Rightarrow> []
                      | b4 # r4 \<Rightarrow>
                          if is_cont b4
                          then ((b - 240) * 262144 + (b2 - 128) * 4096
                                 + (b3 - 128) * 64 + (b4 - 128)) # utf8_ignore r4
                          else utf8_ignore r3)))
     else utf8_ignore bs)"

definition decode_ignore :: "string \<Rightarrow> pystr" where
  "decode_ignore line = utf8_ignore (map of_char line)"

text \<open>\<^verbatim>\<open>text.rstrip("\n")\<close>: every trailing U+000A is removed.\<close>

definition rstrip_nl :: "pystr \<Rightarrow> pystr" where
  "rstrip_nl t = rev (dropWhile (\<lambda>c. c = 10) (rev t))"

text \<open>
  \<^verbatim>\<open>text.split(";")\<close>: the pieces between separators, empty pieces included;
  the empty text gives one empty piece.
\<close>

fun split_acc :: "nat \<Rightarrow> pystr \<Rightarrow> pystr \<Rightarrow> pystr list" where
  "split_acc d cur [] = [rev cur]"
| "split_acc d cur (c # cs) =
    (if c = d then rev cur # split_acc d [] cs else split_acc d (c # cur) cs)"

definition py_split :: "nat \<Rightarrow> pystr \<Rightarrow> pystr list" where
  "py_split d t = split_acc d [] t"

text \<open>\<^verbatim>\<open>[p for p in text.split(";") if p != ""]\<close>\<close>

definition parts_of :: "pystr \<Rightarrow> pystr list" where
  "parts_of t = filter (\<lambda>p. p \<noteq> []) (py_split 59 t)"

section \<open>Integer literals: \<^verbatim>\<open>int(p)\<close>\<close>

text \<open>
  CPython converts a text to an integer in two stages. The first maps a text
  that is not pure ASCII to ASCII: code points below 127 stay, Unicode white
  space becomes a blank, a Unicode decimal digit becomes its ASCII digit, and
  the first other code point becomes a question mark that ends the text. The
  table of Unicode decimal digits belongs to the interpreter's Unicode database
  and is a parameter \<open>td\<close> here; it is consulted for code points from 127 on only.
  The second stage reads base-10 ASCII: white space, an optional sign, digits
  that single underscores may separate, white space. The interpreter's optional
  limit on the number of digits of a literal is not modelled.
\<close>

definition Py_ISSPACE :: "nat \<Rightarrow> bool" where
  "Py_ISSPACE c = (c = 32 \<or> (9 \<le> c \<and> c \<le> 13))"

definition Py_UNICODE_ISSPACE :: "nat \<Rightarrow> bool" where
  "Py_UNICODE_ISSPACE c =
    (if c < 128 then c = 32 \<or> (9 \<le> c \<and> c \<le> 13) \<or> (28 \<le> c \<and> c \<le> 31)
     else c = 0x85 \<or> c = 0xA0 \<or> c = 0x1680 \<or> (0x2000 \<le> c \<and> c \<le> 0x200A)
          \<or> c = 0x2028 \<or> c = 0x2029 \<or> c = 0x202F \<or> c = 0x205F \<or> c = 0x3000)"

fun transform_decimal_and_space :: "(nat \<Rightarrow> nat option) \<Rightarrow> pystr \<Rightarrow> pystr" where
  "transform_decimal_and_space td [] = []"
| "transform_decimal_and_space td (c # cs) =
    (if c < 127 then c # transform_decimal_and_space td cs
     else if Py_UNICODE_ISSPACE c then 32 # transform_decimal_and_space td cs
     else (case td c of
             None \<Rightarrow> [63]
           | Some d \<Rightarrow> (48 + d) # transform_decimal_and_space td cs))"

definition to_ascii :: "(nat \<Rightarrow> nat option) \<Rightarrow> pystr \<Rightarrow> pystr" where
  "to_ascii td u = (if list_all (\<lambda>c. c < 128) u then u else transform_decimal_and_space td u)"

definition is_digit :: "nat \<Rightarrow> bool" where
  "is_digit c = (48 \<le> c \<and> c \<le> 57)"

definition digit_or_underscore :: "nat \<Rightarrow> bool" where
  "digit_or_underscore c = (is_digit c \<or> c = 95)"

fun double_underscore :: "pystr \<Rightarrow> bool" where
  "double_underscore (a # b # cs) = ((a = 95 \<and> b = 95) \<or> double_underscore (b # cs))"
| "double_underscore _ = False"

definition digits_value :: "pystr \<Rightarrow> nat" where
  "digits_value ds = foldl (\<lambda>acc c. acc * 10 + (c - 48)) 0 ds"

definition strip_sign :: "pystr \<Rightarrow> bool \<times> pystr" where
  "strip_sign s =
    (case s of
       [] \<Rightarrow> (False, [])
     | c # r \<Rightarrow> if c = 43 then (False, r) else if c = 45 then (True, r) else (False, s))"

definition PyLong_FromString :: "pystr \<Rightarrow> int option" where
  "PyLong_FromString s =
    (let (neg, s2) = strip_sign (dropWhile Py_ISSPACE s);
         body = takeWhile digit_or_underscore s2;
         rest = dropWhile digit_or_underscore s2
     in (case body of
           [] \<Rightarrow> None
         | c # _ \<Rightarrow>
             if c = 95 \<or> last body = 95 \<or> double_underscore body
                \<or> dropWhile Py_ISSPACE rest \<noteq> []
             then None
             else (let n = int (digits_value (filter (\<lambda>c. c \<noteq> 95) body))
                   in Some (if neg then - n else n))))"

definition py_int :: "(nat \<Rightarrow> nat option) \<Rightarrow> pystr \<Rightarrow> int option" where
  "py_int td u = PyLong_FromString (to_ascii td u)"

text \<open>
  \<^verbatim>\<open>list(map(int, parts))\<close>: the first token that is no integer literal raises
  \<^verbatim>\<open>ValueError\<close>, and no list is built.
\<close>

definition map_int :: "(nat \<Rightarrow> nat option) \<Rightarrow> pystr list \<Rightarrow> error + int list" where
  "map_int td parts =
    (case those (map (py_int td) parts) of None \<Rightarrow> Inl ValueError | Some vs \<Rightarrow> Inr vs)"

section \<open>The reader thread\<close>

text \<open>
  \<^verbatim>\<open>SerialReader\<close>: the fields of the object the claims depend on, the lines the
  thread prints, and whether the thread's \<^verbatim>\<open>run\<close> is still executing.
\<close>

datatype msg =
    Info_Reading
  | Demo_Generating
  | Warn_Skipping nat pystr
  | Error_Serial
  | Error_Unexpected

record reader =
  demo :: bool
  stop_flag :: bool
  latest_row :: "row option"
  ser_open :: bool
  alive :: bool
  printed :: "msg list"

definition new_reader :: "bool \<Rightarrow> reader" where
  "new_reader dm =
    \<lparr>demo = dm, stop_flag = False, latest_row = None, ser_open = (\<not> dm),
     alive = False, printed = []\<rparr>"

text \<open>\<^verbatim>\<open>with self.lock: self.latest_row = row\<close> (lines 107-108 and 170-171).\<close>

definition put_latest :: "row \<Rightarrow> reader \<Rightarrow> reader" where
  "put_latest rw r = r\<lparr>latest_row := Some rw\<rparr>"

text \<open>
  \<^verbatim>\<open>get_latest\<close> returns a copy of the slot and leaves the object as it is; the
  object is returned too, so that this is a statement of the model.
\<close>

definition get_latest :: "reader \<Rightarrow> row option \<times> reader" where
  "get_latest r = (case latest_row r of None \<Rightarrow> (None, r) | Some d \<Rightarrow> (Some d, r))"

fun get_many :: "nat \<Rightarrow> reader \<Rightarrow> row option list \<times> reader" where
  "get_many 0 r = ([], r)"
| "get_many (Suc n) r =
    (let (v, r1) = get_latest r; (vs, r2) = get_many n r1 in (v # vs, r2))"

definition stop :: "reader \<Rightarrow> reader" where
  "stop r = r\<lparr>stop_flag := True, ser_open := False\<rparr>"

definition start :: "reader \<Rightarrow> reader" where
  "start r =
    r\<lparr>alive := True,
      printed := printed r @ [if demo r then Demo_Generating else Info_Reading]\<rparr>"

text \<open>What one call of \<^verbatim>\<open>self.ser.read_until(b"\n")\<close> does.\<close>

datatype read_result = Data string | Raise_SerialException | Raise_Exception

definition strip_cr :: "string \<Rightarrow> string" where
  "strip_cr line = (if line \<noteq> [] \<and> last line = CR then butlast line else line)"

text \<open>
  Lines 95-97: one trailing carriage return is cut off the bytes, the rest is
  decoded, and the trailing line feeds are cut off the text.
\<close>

definition line_text :: "string \<Rightarrow> pystr" where
  "line_text line = rstrip_nl (decode_ignore (strip_cr line))"

definition token_count :: "string \<Rightarrow> nat" where
  "token_count line = length (parts_of (line_text line))"

text \<open>
  One pass of the \<^verbatim>\<open>while not self.stop_flag.is_set()\<close> loop of \<^verbatim>\<open>run\<close>
  (lines 88-117), given what the read returns.
\<close>

definition run_iter :: "(nat \<Rightarrow> nat option) \<Rightarrow> read_result \<Rightarrow> reader \<Rightarrow> reader" where
  "run_iter td rr r =
    (if \<not> alive r then r
     else if stop_flag r then r\<lparr>alive := False\<rparr>
     else
       (case rr of
          Raise_SerialException \<Rightarrow> r\<lparr>alive := False, printed := printed r @ [Error_Serial]\<rparr>
        | Raise_Exception \<Rightarrow> r\<lparr>alive := False, printed := printed r @ [Error_Unexpected]\<rparr>
        | Data line \<Rightarrow>
            if line = [] then r
            else
              (let text = line_text line in
               if text = [] then r
               else
                 (let parts = parts_of text in
                  if length parts \<noteq> N_FIELDS
                  then r\<lparr>printed := printed r @ [Warn_Skipping (length parts) text]\<rparr>
                  else
                    (case map_int td parts of
                       Inl e \<Rightarrow> r
                     | Inr values \<Rightarrow> put_latest (py_dict (zip FIELDS values)) r)))))"

section \<open>The synthetic source\<close>

text \<open>
  \<^verbatim>\<open>_run_demo\<close> (lines 119-172). Its locals that survive a pass are the state;
  Python floats are modelled by exact rationals, so a channel computed in floating
  point is the value of the exact arithmetic. The three clock readings of a pass
  (\<^verbatim>\<open>time.time()\<close> at lines 146, 160 and 161) are its input.
\<close>

record demo_state =
  d_i :: int
  d_rpm :: int
  d_speed :: rat
  d_gear :: int
  d_torque :: int
  d_oil_coolant_temperature :: rat
  d_last_shift :: rat

definition demo_init :: "rat \<Rightarrow> demo_state" where
  "demo_init t0 =
    \<lparr>d_i = 0, d_rpm = 800, d_speed = 0, d_gear = 1, d_torque = 50,
     d_oil_coolant_temperature = 70, d_last_shift = t0\<rparr>"

definition py_truediv :: "rat \<Rightarrow> rat \<Rightarrow> error + rat" where
  "py_truediv a b = (if b = 0 then Inl ZeroDivisionError else Inr (a / b))"

text \<open>\<^verbatim>\<open>int(x)\<close> of a float truncates towards zero.\<close>

definition py_trunc :: "rat \<Rightarrow> int" where
  "py_trunc x = (if 0 \<le> x then \<lfloor>x\<rfloor> else \<lceil>x\<rceil>)"

definition demo_body :: "rat \<times> rat \<times> rat \<Rightarrow> demo_state \<Rightarrow> error + (demo_state \<times> row)" where
  "demo_body clk st =
    (let (now, t1, t2) = clk;
         i = d_i st + 1;
         rpm = max 700 (min 6500 (d_rpm st + (if d_speed st < 80 then 50 else - 30)));
         speed = max 0 (min 220 (d_speed st + (if rpm > 1200 then 1 / 2 else - (1 / 5))));
         shift = (now - d_last_shift st > 5 \<and> speed > 20);
         gear = (if shift then min 8 (d_gear st + 1) else d_gear st);
         last_shift = (if shift then now else d_last_shift st);
         torque = max 0 (min 450 (d_torque st + (if rpm < 3000 then 5 else - 7)));
         oil = min 110 (d_oil_coolant_temperature st + 1 / 50)
     in
       bindE (py_truediv (of_int rpm) 10000) (\<lambda>q0.
       bindE (py_truediv (of_int rpm) 6500) (\<lambda>q1.
       bindE (py_truediv (of_int rpm) 6500) (\<lambda>q2.
       bindE (py_truediv (of_int rpm) 6500) (\<lambda>q3.
       bindE (py_truediv (of_int rpm) 6500) (\<lambda>q4.
       bindE (py_truediv (of_int rpm) 6500) (\<lambda>q5.
         (let iat = 20 + q0 * 30;
              egt1 = 300 + q1 * 700;
              egt2 = egt1 - 10;
              oil_p = 3 / 2 + q2 * 4;
              fuel_p = 2500 + py_trunc (q3 * 1500);
              map_val = 1000 + py_trunc (q4 * 1500);
              ep1 = 80 + py_trunc (q5 * 120);
              ep2 = ep1 - 5;
              u12 = 13800 + py_trunc (100 * (1 / 2 - frac t1));
              u5 = 5020 + py_trunc (10 * (1 / 2 - frac t2));
              fault = 0
          in Inr
               (\<lparr>d_i = i, d_rpm = rpm, d_speed = speed, d_gear = gear, d_torque = torque,
                 d_oil_coolant_temperature = oil, d_last_shift = last_shift\<rparr>,
                py_dict (zip FIELDS
                  [i, rpm, py_trunc speed, gear, torque, py_trunc oil, py_trunc egt1,
                   py_trunc egt2, py_trunc iat, py_trunc (oil_p * 100), fuel_p, map_val,
                   ep1, ep2, u12, u5, fault]))))))))))"

text \<open>
  One pass of the \<^verbatim>\<open>while\<close> loop of \<^verbatim>\<open>_run_demo\<close>. Nothing in the thread
  catches an exception of the body.
\<close>

definition demo_iter ::
  "rat \<times> rat \<times> rat \<Rightarrow> demo_state \<times> reader \<Rightarrow> error + (demo_state \<times> reader)" where
  "demo_iter clk sr =
    (let (st, r) = sr in
     if \<not> alive r then Inr (st, r)
     else if stop_flag r then Inr (st, r\<lparr>alive := False\<rparr>)
     else bindE (demo_body clk st) (\<lambda>(st', rw). Inr (st', put_latest rw r)))"

text \<open>The rows a run of the generator emits, one per clock reading, in order.\<close>

fun demo_rows :: "(rat \<times> rat \<times> rat) list \<Rightarrow> demo_state \<Rightarrow> error + row list" where
  "demo_rows [] st = Inr []"
| "demo_rows (clk # clks) st =
    bindE (demo_body clk st) (\<lambda>(st', rw).
    bindE (demo_rows clks st') (\<lambda>rws. Inr (rw # rws)))"

section \<open>Fault decoding\<close>

definition fault_mapping :: "(nat \<times> string) list" where
  "fault_mapping =
    [(0, ''SENSOR_ERR''), (1, ''OVERBOOST''), (2, ''LOW_OIL''), (3, ''HIGH_EGT''),
     (4, ''LOW_FUEL_PRESS''), (5, ''LOW_U12V''), (6, ''LOW_U5V''), (7, ''MAP_IMPLAUS'')]"

text \<open>
  \<^verbatim>\<open>for bit, name in mapping.items(): if fw & (1 << bit): flags.append(name)\<close>;
  Python integers are unbounded and \<^verbatim>\<open>&\<close> is two's complement, as \<open>AND\<close> on
  \<^typ>\<open>int\<close>.
\<close>

definition faultword_to_flags :: "int \<Rightarrow> string list" where
  "faultword_to_flags fw =
    foldl (\<lambda>flags (b, name). if fw AND push_bit b 1 \<noteq> 0 then flags @ [name] else flags)
      [] fault_mapping"

section \<open>History buffers\<close>

text \<open>
  \<^verbatim>\<open>collections.deque(maxlen=m)\<close>: a negative \<^verbatim>\<open>m\<close> raises \<^verbatim>\<open>ValueError\<close>;
  \<^verbatim>\<open>append\<close> adds on the right and then, when the length exceeds
  \<^verbatim>\<open>maxlen\<close>, removes the leftmost element.
\<close>

record deque =
  maxlen :: nat
  items :: "int list"

definition new_deque :: "int \<Rightarrow> error + deque" where
  "new_deque m = (if m < 0 then Inl ValueError else Inr \<lparr>maxlen = nat m, items = []\<rparr>)"

definition deque_append :: "deque \<Rightarrow> int \<Rightarrow> deque" where
  "deque_append d v =
    (let xs = items d @ [v] in
     if length xs > maxlen d then d\<lparr>items := tl xs\<rparr> else d\<lparr>items := xs\<rparr>)"

definition deque_extend :: "deque \<Rightarrow> int list \<Rightarrow> deque" where
  "deque_extend d vs = foldl deque_append d vs"

text \<open>\<^verbatim>\<open>--max-points\<close>, \<^verbatim>\<open>type=int, default=1200\<close>.\<close>

definition max_points :: "int option \<Rightarrow> int" where
  "max_points arg = (case arg of None \<Rightarrow> 1200 | Some m \<Rightarrow> m)"

record history =
  h_x :: deque
  h_rpm :: deque
  h_speed :: deque
  h_gear :: deque
  h_torque :: deque
  h_oil_coolant :: deque
  h_egt1 :: deque
  h_egt2 :: deque
  h_iat :: deque
  h_oil_p :: deque
  h_fuel_p :: deque
  h_map_v :: deque
  h_ep1 :: deque
  h_ep2 :: deque
  h_u12 :: deque
  h_u5 :: deque
  h_faultword :: deque

definition new_history :: "int \<Rightarrow> error + history" where
  "new_history m =
    bindE (new_deque m) (\<lambda>d.
      Inr \<lparr>h_x = d, h_rpm = d, h_speed = d, h_gear = d, h_torque = d, h_oil_coolant = d, h_egt1 = d, h_egt2 = d, h_iat = d, h_oil_p = d, h_fuel_p = d, h_map_v = d, h_ep1 = d, h_ep2 = d, h_u12 = d, h_u5 = d, h_faultword = d\<rparr>)"

section \<open>The log file\<close>

text \<open>
  Decimal text of an integer, \<^verbatim>\<open>str(n)\<close>, which is also what
  \<^verbatim>\<open>csv\<close> writes for an integer cell.
\<close>

fun nat_digits :: "nat \<Rightarrow> string" where
  "nat_digits n =
    (if n < 10 then [char_of (48 + n)]
     else nat_digits (n div 10) @ [char_of (48 + n mod 10)])"

definition py_str :: "int \<Rightarrow> string" where
  "py_str n = (if n < 0 then CHR ''-'' # nat_digits (nat (- n)) else nat_digits (nat n))"

datatype pyval = PStr string | PInt int

definition dict_update :: "('k \<times> 'v) list \<Rightarrow> ('k \<times> 'v) list \<Rightarrow> ('k \<times> 'v) list" where
  "dict_update d e = foldl (\<lambda>d (k, v). AList.update k v d) d e"

definition cell :: "pyval option \<Rightarrow> string" where
  "cell c = (case c of None \<Rightarrow> [] | Some (PStr s) \<Rightarrow> s | Some (PInt n) \<Rightarrow> py_str n)"

text \<open>
  \<^verbatim>\<open>csv.DictWriter(csv_file, fieldnames=["timestamp_iso"] + FIELDS)\<close>: a key
  outside the field names raises \<^verbatim>\<open>ValueError\<close>, a missing one is written as the
  empty cell. The file is the list of the rows written so far, header first.
\<close>

definition fieldnames :: "string list" where
  "fieldnames = ''timestamp_iso'' # FIELDS"

definition writerow :: "(string \<times> pyval) list \<Rightarrow> string list list \<Rightarrow> error + string list list" where
  "writerow rowdict file =
    (if \<exists>k \<in> set (map fst rowdict). k \<notin> set fieldnames then Inl ValueError
     else Inr (file @ [map (\<lambda>k. cell (map_of rowdict k)) fieldnames]))"

definition writeheader :: "string list list \<Rightarrow> string list list" where
  "writeheader file = file @ [fieldnames]"

text \<open>The rows after the header.\<close>

definition data_rows :: "string list list option \<Rightarrow> string list list" where
  "data_rows w = (case w of None \<Rightarrow> [] | Some file \<Rightarrow> tl file)"

section \<open>The consumer\<close>

text \<open>
  What \<^verbatim>\<open>main\<close> sets up and \<^verbatim>\<open>update\<close> changes: the reader with the locals of
  its generator, the log file (\<open>None\<close> under \<^verbatim>\<open>--no-log\<close>), the seventeen history
  buffers and the text of the fault overlay. Drawing is left out.
\<close>

record pipeline =
  rdr :: reader
  gen :: demo_state
  writer :: "string list list option"
  hist :: history
  fault_text :: string

record args =
  a_max_points :: "int option"
  a_demo :: bool
  a_no_log :: bool

definition main_init :: "args \<Rightarrow> rat \<Rightarrow> error + pipeline" where
  "main_init a t0 =
    bindE (new_history (max_points (a_max_points a))) (\<lambda>h.
      Inr \<lparr>rdr = start (new_reader (a_demo a)),
           gen = demo_init t0,
           writer = (if a_no_log a then None else Some (writeheader [])),
           hist = h,
           fault_text = []\<rparr>)"

definition join_comma :: "string list \<Rightarrow> string" where
  "join_comma ss = (case ss of [] \<Rightarrow> [] | t # ts \<Rightarrow> foldl (\<lambda>acc u. acc @ '', '' @ u) t ts)"

definition overlay :: "deque \<Rightarrow> string" where
  "overlay fws =
    (let fw = (if items fws \<noteq> [] then last (items fws) else 0);
         flags = faultword_to_flags fw
     in if fw = 0 then [] else ''FAULT '' @ py_str fw @ '':'' @ [LF] @ join_comma flags)"

text \<open>
  \<^verbatim>\<open>update\<close> (lines 312-392), called on every tick of the animation timer with
  the reading \<open>now\<close> of the wall clock, already formatted, that it takes at
  line 319.
\<close>

definition update :: "string \<Rightarrow> pipeline \<Rightarrow> error + pipeline" where
  "update now p =
    (let (got, r) = get_latest (rdr p) in
     case got of
       None \<Rightarrow> Inr (p\<lparr>rdr := r\<rparr>)
     | Some rw \<Rightarrow>
       bindE (case writer p of
                None \<Rightarrow> Inr None
              | Some file \<Rightarrow>
                  bindE (writerow
                          (dict_update [(''timestamp_iso'', PStr now)]
                             (map (\<lambda>(k, v). (k, PInt v)) rw)) file)
                    (\<lambda>file'. Inr (Some file'))) (\<lambda>w.
       bindE (getitem rw ''log_index'') (\<lambda>v0.
       bindE (getitem rw ''engine_rpm'') (\<lambda>v1.
       bindE (getitem rw ''vehicle_speed'') (\<lambda>v2.
       bindE (getitem rw ''gear'') (\<lambda>v3.
       bindE (getitem rw ''torque'') (\<lambda>v4.
       bindE (getitem rw ''oil_coolant_temperature'') (\<lambda>v5.
       bindE (getitem rw ''EGT_bank1'') (\<lambda>v6.
       bindE (getitem rw ''EGT_bank2'') (\<lambda>v7.
       bindE (getitem rw ''intake_air_temperature'') (\<lambda>v8.
       bindE (getitem rw ''oil_press'') (\<lambda>v9.
       bindE (getitem rw ''fuel_press'') (\<lambda>v10.
       bindE (getitem rw ''MAP_value'') (\<lambda>v11.
       bindE (getitem rw ''exhaust_press_bank1'') (\<lambda>v12.
       bindE (getitem rw ''exhaust_press_bank2'') (\<lambda>v13.
       bindE (getitem rw ''U12V'') (\<lambda>v14.
       bindE (getitem rw ''U5V'') (\<lambda>v15.
       bindE (getitem rw ''faultword1'') (\<lambda>v16.
         (let h = hist p;
              h' = \<lparr>h_x = deque_append (h_x h) v0,
            h_rpm = deque_append (h_rpm h) v1,
            h_speed = deque_append (h_speed h) v2,
            h_gear = deque_append (h_gear h) v3,
            h_torque = deque_append (h_torque h) v4,
            h_oil_coolant = deque_append (h_oil_coolant h) v5,
            h_egt1 = deque_append (h_egt1 h) v6,
            h_egt2 = deque_append (h_egt2 h) v7,
            h_iat = deque_append (h_iat h) v8,
            h_oil_p = deque_append (h_oil_p h) v9,
            h_fuel_p = deque_append (h_fuel_p h) v10,
            h_map_v = deque_append (h_map_v h) v11,
            h_ep1 = deque_append (h_ep1 h) v12,
            h_ep2 = deque_append (h_ep2 h) v13,
            h_u12 = deque_append (h_u12 h) v14,
            h_u5 = deque_append (h_u5 h) v15,
            h_faultword = deque_append (h_faultword h) v16\<rparr>
          in Inr (p\<lparr>rdr := r, writer := w, hist := h',
                    fault_text := overlay (h_faultword h')\<rparr>)))))))))))))))))))))"

section \<open>Interleavings\<close>

text \<open>
  The two threads share the slot only, under the lock, so a run of the program is
  a sequence of atomic events: a pass of the serial loop with what the read
  returned, a pass of the generator with its clock readings, a tick of the
  consumer with its clock reading, a press of the Stop button.
\<close>

datatype event =
    Read read_result
  | Demo "rat \<times> rat \<times> rat"
  | Tick string
  | Stop

text \<open>
  What an event does to the reader object and the generator's locals. An exception
  that leaves \<^verbatim>\<open>_run_demo\<close> ends the thread and nothing else. A tick calls
  \<^verbatim>\<open>get_latest\<close>.
\<close>

definition reader_step ::
  "(nat \<Rightarrow> nat option) \<Rightarrow> event \<Rightarrow> demo_state \<times> reader \<Rightarrow> demo_state \<times> reader" where
  "reader_step td e sr =
    (let (st, r) = sr in
     case e of
       Read rr \<Rightarrow> if demo r then (st, r) else (st, run_iter td rr r)
     | Demo clk \<Rightarrow>
         if demo r
         then (case demo_iter clk (st, r) of
                 Inl err \<Rightarrow> (st, r\<lparr>alive := False\<rparr>)
               | Inr sr' \<Rightarrow> sr')
         else (st, r)
     | Tick now \<Rightarrow> (st, snd (get_latest r))
     | Stop \<Rightarrow> (st, stop r))"

definition reader_run ::
  "(nat \<Rightarrow> nat option) \<Rightarrow> event list \<Rightarrow> demo_state \<times> reader \<Rightarrow> demo_state \<times> reader" where
  "reader_run td es sr = foldl (\<lambda>s e. reader_step td e s) sr es"

text \<open>The same event on the whole program: a tick runs \<^verbatim>\<open>update\<close>.\<close>

definition step :: "(nat \<Rightarrow> nat option) \<Rightarrow> event \<Rightarrow> pipeline \<Rightarrow> error + pipeline" where
  "step td e p =
    (case e of
       Tick now \<Rightarrow> update now p
     | _ \<Rightarrow> (let (st, r) = reader_step td e (gen p, rdr p) in Inr (p\<lparr>gen := st, rdr := r\<rparr>)))"

fun run_events :: "(nat \<Rightarrow> nat option) \<Rightarrow> event list \<Rightarrow> pipeline \<Rightarrow> error + pipeline" where
  "run_events td [] p = Inr p"
| "run_events td (e # es) p = bindE (step td e p) (run_events td es)"

definition run_main ::
  "(nat \<Rightarrow> nat option) \<Rightarrow> args \<Rightarrow> rat \<Rightarrow> event list \<Rightarrow> error + pipeline" where
  "run_main td a t0 es = bindE (main_init a t0) (run_events td es)"

text \<open>What a run leaves in the log and in the slot.\<close>

definition logged :: "error + pipeline \<Rightarrow> error + string list list" where
  "logged res = (case res of Inl e \<Rightarrow> Inl e | Inr p \<Rightarrow> Inr (data_rows (writer p)))"

definition cached :: "error + pipeline \<Rightarrow> error + row option" where
  "cached res = (case res of Inl e \<Rightarrow> Inl e | Inr p \<Rightarrow> Inr (latest_row (rdr p)))"

definition warnings :: "error + pipeline \<Rightarrow> error + msg list" where
  "warnings res = (case res of Inl e \<Rightarrow> Inl e | Inr p \<Rightarrow> Inr (printed (rdr p)))"

text \<open>A row with exactly the schema's keys, in the schema's order.\<close>

definition wf_row :: "row \<Rightarrow> bool" where
  "wf_row rw = (map fst rw = FIELDS)"

text \<open>
  What holds of the program at every moment: the slot is empty or holds a row of
  the schema, and the log file, when there is one, has its header.
\<close>

definition pipeline_ok :: "pipeline \<Rightarrow> bool" where
  "pipeline_ok p =
    ((case latest_row (rdr p) of None \<Rightarrow> True | Some rw \<Rightarrow> wf_row rw)
     \<and> (case writer p of None \<Rightarrow> True | Some fl \<Rightarrow> fl \<noteq> []))"

text \<open>The line a tick writes for a row.\<close>

definition csv_line :: "string \<Rightarrow> row \<Rightarrow> string list" where
  "csv_line now rw = now # map (\<lambda>(k, v). py_str v) rw"

section \<open>The wire format, as the specification words it\<close>



section \<open>Test data\<close>

text \<open>
  The end-to-end scenario of the specification: two lines of seventeen fields and,
  between them, one of sixteen. \<open>no_digits\<close> is a Unicode table without decimal
  digits outside ASCII.
\<close>

definition no_digits :: "nat \<Rightarrow> nat option" where
  "no_digits c = None"

definition line_a :: string where
  "line_a = ''1;800;0;1;50;70;350;340;20;200;3000;1000;100;95;13800;5020;0'' @ [LF]"

definition line_short :: string where
  "line_short = ''1;800;0;1;50;70;350;340;20;200;3000;1000;100;95;13800;5020'' @ [LF]"

definition line_b :: string where
  "line_b = ''2;850;1;1;55;70;360;350;20;205;3050;1010;101;96;13790;5015;0'' @ [LF]"

definition row_a :: row where
  "row_a = zip FIELDS [1, 800, 0, 1, 50, 70, 350, 340, 20, 200, 3000, 1000, 100, 95, 13800, 5020, 0]"

definition row_b :: row where
  "row_b = zip FIELDS [2, 850, 1, 1, 55, 70, 360, 350, 20, 205, 3050, 1010, 101, 96, 13790, 5015, 0]"

text \<open>A line of seventeen tokens whose first is no integer.\<close>

definition line_nonint :: string where
  "line_nonint = ''x;800;0;1;50;70;350;340;20;200;3000;1000;100;95;13800;5020;0'' @ [LF]"

text \<open>The payload of \<open>line_a\<close> as the firmware sends it, every field followed by a semicolon.\<close>

definition payload_semi :: string where
  "payload_semi = ''1;800;0;1;50;70;350;340;20;200;3000;1000;100;95;13800;5020;0;''"

definition default_args :: args where
  "default_args = \<lparr>a_max_points = None, a_demo = False, a_no_log = False\<rparr>"

text \<open>
  The scenario with one tick of the consumer after each of the two valid lines,
  at the clock readings \<open>t1\<close> and \<open>t2\<close>.
\<close>

definition scenario :: "string \<Rightarrow> string \<Rightarrow> event list" where
  "scenario t1 t2 =
    [Read (Data line_a), Tick t1, Read (Data line_short), Read (Data line_b), Tick t2]"

section \<open>The slot\<close>

text \<open>
  C2. The slot is latest-wins and reading does not consume: after the slot is
  written with \<open>A\<close> and then with \<open>B\<close>, any number of successive calls of
  \<^verbatim>\<open>get_latest\<close> all return \<open>B\<close>, and they leave the reader as the second write
  left it.
\<close>

theorem cache_latest_wins:
  "get_many n (put_latest B (put_latest A r))
     = (replicate n (Some B), put_latest B (put_latest A r))"
  by (induction n) (simp_all add: get_latest_def put_latest_def)

section \<open>Fault flags\<close>

lemma flag_test: "(fw AND push_bit b 1 \<noteq> 0) = bit (fw :: int) b"
  by (simp add: bit_iff_and_push_bit_not_eq_0)

lemma flags_filter:
  "faultword_to_flags fw = map snd (filter (\<lambda>(b, name). bit fw b) fault_mapping)"
  unfolding faultword_to_flags_def fault_mapping_def flag_test by simp

text \<open>
  C10. The lookup reads bit positions 0 to 7 only: the table's positions are
  0, 1, ..., 7 in this order, the result is the labels of the table entries whose
  bit is set in \<open>fw\<close>, in table order, it is the result for the low eight bits of
  \<open>fw\<close>, and a bitmask with no bit set below position 8 gives the empty list.
  This holds for every integer, negative ones included.
\<close>

theorem faultword_to_flags_low_byte:
  "map fst fault_mapping = [0..<8]
   \<and> faultword_to_flags fw = map snd (filter (\<lambda>(b, name). bit fw b) fault_mapping)
   \<and> faultword_to_flags (take_bit 8 fw) = faultword_to_flags fw
   \<and> faultword_to_flags (push_bit 8 k) = []"
proof -
  have "map fst fault_mapping = [0..<8]"
    unfolding fault_mapping_def by (simp add: upt_conv_Cons)
  moreover have "faultword_to_flags (take_bit 8 fw) = faultword_to_flags fw"
    unfolding flags_filter fault_mapping_def by (simp add: bit_take_bit_iff)
  moreover have "faultword_to_flags (push_bit 8 k) = []"
    unfolding flags_filter fault_mapping_def by (simp add: bit_push_bit_iff)
  ultimately show ?thesis
    using flags_filter by blast
qed

lemma run_iter_keeps: "latest_row r = Some y \<Longrightarrow> \<exists>z. latest_row (run_iter td rr r) = Some z"
  by (simp add: run_iter_def put_latest_def Let_def split: read_result.splits sum.splits)

lemma demo_iter_keeps:
  "latest_row r = Some y \<Longrightarrow> demo_iter clk (st, r) = Inr (st', r') \<Longrightarrow> \<exists>z. latest_row r' = Some z"
  by (auto simp: demo_iter_def bindE_def put_latest_def split: if_splits sum.splits prod.splits)

lemma reader_step_keeps:
  "latest_row (snd sr) = Some y \<Longrightarrow> \<exists>z. latest_row (snd (reader_step td e sr)) = Some z"
proof (cases sr)
  case (Pair st r)
  assume "latest_row (snd sr) = Some y"
  with Pair have r: "latest_row r = Some y" by simp
  show ?thesis
  proof (cases e)
    case (Read rr)
    with Pair r run_iter_keeps [OF r] show ?thesis by (simp add: reader_step_def)
  next
    case (Demo clk)
    with Pair r show ?thesis
      by (auto simp: reader_step_def split: sum.splits dest: demo_iter_keeps)
  next
    case (Tick now)
    with Pair r show ?thesis by (simp add: reader_step_def get_latest_def)
  next
    case Stop
    with Pair r show ?thesis by (simp add: reader_step_def stop_def)
  qed
qed

lemma reader_run_keeps:
  "latest_row (snd sr) = Some y \<Longrightarrow> \<exists>z. latest_row (snd (reader_run td es sr)) = Some z"
  unfolding reader_run_def
proof (induction es arbitrary: sr y)
  case Nil
  then show ?case by simp
next
  case (Cons e es)
  from reader_step_keeps [OF Cons.prems] obtain z
    where "latest_row (snd (reader_step td e sr)) = Some z" by blast
  from Cons.IH [OF this] show ?case by simp
qed

lemma get_latest_fst: "fst (get_latest r) = latest_row r"
  by (simp add: get_latest_def split: option.splits)

text \<open>
  C9. The slot never reverts to empty: if \<^verbatim>\<open>get_latest\<close> returns a row, then after
  any sequence of passes of the serial loop, passes of the generator, ticks and
  presses of Stop it returns a row again.
\<close>

theorem slot_never_reverts:
  "fst (get_latest (snd sr)) \<noteq> None \<Longrightarrow>
   fst (get_latest (snd (reader_run td es sr))) \<noteq> None"
  using reader_run_keeps [of sr _ td es] by (auto simp: get_latest_fst)

theorem slot_never_reverts_witness:
  "fst (get_latest (snd (demo_init 0, put_latest row_a (start (new_reader False))))) \<noteq> None
   \<and> fst (get_latest (snd (reader_run no_digits [Stop, Read (Data line_short), Tick ''t'']
        (demo_init 0, put_latest row_a (start (new_reader False)))))) \<noteq> None"
proof -
  have h: "fst (get_latest (snd (demo_init 0, put_latest row_a (start (new_reader False))))) \<noteq> None"
    by (simp add: get_latest_def put_latest_def)
  from slot_never_reverts [OF h] h show ?thesis by blast
qed

section \<open>Ring buffers\<close>

lemma deque_append_maxlen: "maxlen (deque_append d v) = maxlen d"
  by (simp add: deque_append_def Let_def)

lemma deque_append_items:
  "length (items d) \<le> maxlen d \<Longrightarrow>
   items (deque_append d v) = drop (length (items d) + 1 - maxlen d) (items d @ [v])"
  by (cases "items d") (auto simp: deque_append_def Let_def drop_Cons' )

lemma deque_extend_maxlen: "maxlen (deque_extend d vs) = maxlen d"
  unfolding deque_extend_def
  by (induction vs arbitrary: d) (simp_all add: deque_append_maxlen)





section \<open>Rows\<close>

lemma update_fresh: "k \<notin> fst ` set d \<Longrightarrow> AList.update k v d = d @ [(k, v)]"
  by (induction d) auto

lemma dict_update_distinct:
  "distinct (map fst (d @ ps)) \<Longrightarrow> dict_update d ps = d @ ps"
  unfolding dict_update_def
proof (induction ps arbitrary: d)
  case Nil
  then show ?case by simp
next
  case (Cons p ps)
  obtain k v where p: "p = (k, v)" by (cases p)
  from Cons.prems p have fresh: "k \<notin> fst ` set d" by auto
  from Cons.prems p have "distinct (map fst ((d @ [(k, v)]) @ ps))" by auto
  from Cons.IH [OF this] p fresh show ?case by (simp add: update_fresh)
qed

lemma py_dict_distinct: "distinct (map fst ps) \<Longrightarrow> py_dict ps = ps"
  using dict_update_distinct [of "[]" ps] by (simp add: py_dict_def dict_update_def)

lemma distinct_FIELDS: "distinct FIELDS"
  by (simp add: FIELDS_def)


lemma py_dict_zip: "py_dict (zip FIELDS vs) = zip FIELDS vs"
  by (rule py_dict_distinct) (simp add: distinct_FIELDS map_fst_zip_take)


section \<open>The synthetic source\<close>

lemma truediv_6500: "bindE (py_truediv a 6500) f = f (a / 6500)"
  by (simp add: py_truediv_def bindE_def)

lemma truediv_10000: "bindE (py_truediv a 10000) f = f (a / 10000)"
  by (simp add: py_truediv_def bindE_def)

lemma length_16:
  "length [a1, a2, a3, a4, a5, a6, a7, a8, a9, a10, a11, a12, a13, a14, a15, a16] = 16"
  by simp

lemma demo_body_shape:
  "\<exists>st' vs. demo_body clk st = Inr (st', zip FIELDS ((d_i st + 1) # vs))
      \<and> d_i st' = d_i st + 1 \<and> length vs = 16"
proof (cases clk)
  case (fields now t1 t2)
  show ?thesis
    unfolding fields demo_body_def
    apply (simp only: Let_def truediv_6500 truediv_10000 prod.case py_dict_zip)
    apply (rule exI, rule exI, rule conjI, rule refl, rule conjI)
     apply (simp only: demo_state.select_convs)
    apply (rule length_16)
    done
qed


lemma log_index_zip: "getitem (zip FIELDS (v # vs)) ''log_index'' = Inr v"
  by (simp add: getitem_def FIELDS_def)

lemma demo_rows_index:
  "\<exists>rws. demo_rows clks st = Inr rws
     \<and> map (\<lambda>rw. getitem rw ''log_index'') rws
         = map (\<lambda>k. Inr (d_i st + int k)) [1..<Suc (length clks)]"
proof (induction clks arbitrary: st)
  case Nil
  then show ?case by simp
next
  case (Cons clk clks)
  obtain st' vs where b: "demo_body clk st = Inr (st', zip FIELDS ((d_i st + 1) # vs))"
    and i: "d_i st' = d_i st + 1"
    using demo_body_shape by blast
  obtain rws where r: "demo_rows clks st' = Inr rws"
    and m: "map (\<lambda>rw. getitem rw ''log_index'') rws
             = map (\<lambda>k. Inr (d_i st' + int k)) [1..<Suc (length clks)]"
    using Cons.IH by blast
  have u: "[1..<Suc (length (clk # clks))] = 1 # map Suc [1..<Suc (length clks)]"
    by (simp add: upt_conv_Cons map_Suc_upt del: upt_Suc)
  have "demo_rows (clk # clks) st = Inr (zip FIELDS ((d_i st + 1) # vs) # rws)"
    using b r by (simp add: bindE_def)
  moreover have "map (\<lambda>rw. getitem rw ''log_index'') (zip FIELDS ((d_i st + 1) # vs) # rws)
      = map (\<lambda>k. Inr (d_i st + int k)) [1..<Suc (length (clk # clks))]"
    unfolding u using m i by (simp add: log_index_zip comp_def add.assoc del: upt_Suc)
  ultimately show ?case by blast
qed

text \<open>
  C7. For any number of passes of the generator and whatever the clock reads, no
  pass fails, every pass emits one row, and the \<^verbatim>\<open>log_index\<close> of the rows is
  1, 2, 3, ... without a gap.
\<close>

theorem synthetic_log_index:
  "\<exists>rws. demo_rows clks (demo_init t0) = Inr rws
     \<and> length rws = length clks
     \<and> map (\<lambda>rw. getitem rw ''log_index'') rws = map (\<lambda>k. Inr (int k)) [1..<Suc (length clks)]"
proof -
  obtain rws where r: "demo_rows clks (demo_init t0) = Inr rws"
    and m: "map (\<lambda>rw. getitem rw ''log_index'') rws
         = map (\<lambda>k. Inr (d_i (demo_init t0) + int k)) [1..<Suc (length clks)]"
    using demo_rows_index by blast
  have "length (map (\<lambda>rw. getitem rw ''log_index'') rws) = length clks"
    unfolding m length_map length_upt by simp
  then have "length rws = length clks" by simp
  with r m show ?thesis by (simp add: demo_init_def del: upt_Suc)
qed

section \<open>The serial loop: rejected lines\<close>

lemma line_text_Nil: "line_text [] = []"
  by (simp add: line_text_def strip_cr_def decode_ignore_def rstrip_nl_def)

lemma N_FIELDS_17: "N_FIELDS = 17"
  by (simp add: N_FIELDS_def FIELDS_def)

lemma run_iter_Data:
  "alive r \<Longrightarrow> \<not> stop_flag r \<Longrightarrow>
   run_iter td (Data line) r =
     (if line_text line = [] then r
      else if token_count line \<noteq> N_FIELDS
      then r\<lparr>printed := printed r @ [Warn_Skipping (token_count line) (line_text line)]\<rparr>
      else (case map_int td (parts_of (line_text line)) of
              Inl e \<Rightarrow> r
            | Inr values \<Rightarrow> put_latest (py_dict (zip FIELDS values)) r))"
  by (simp add: run_iter_def Let_def token_count_def line_text_Nil)

lemma those_map_None: "(those (map f xs) = None) = (\<exists>x \<in> set xs. f x = None)"
  by (induction xs) (auto split: option.splits)

text \<open>
  C3, as the program has it. A pass of the running loop on a line whose token
  count differs from the seventeen of the schema leaves the slot and the thread
  as they are: when the stripped text is empty nothing is printed, otherwise one
  warning with the count and the text is printed. The slot changes on a line of
  exactly seventeen tokens only.
\<close>

theorem wrong_field_count_skipped:
  assumes "alive r" and "\<not> stop_flag r"
  shows "N_FIELDS = 17
    \<and> (token_count line \<noteq> N_FIELDS \<longrightarrow>
         run_iter td (Data line) r =
           (if line_text line = [] then r
            else r\<lparr>printed := printed r @ [Warn_Skipping (token_count line) (line_text line)]\<rparr>))
    \<and> (latest_row (run_iter td (Data line) r) \<noteq> latest_row r \<longrightarrow> token_count line = N_FIELDS)"
proof -
  have "latest_row (run_iter td (Data line) r) = latest_row r" if "token_count line \<noteq> N_FIELDS"
    using that assms by (simp add: run_iter_Data)
  then show ?thesis
    using assms by (auto simp: run_iter_Data N_FIELDS_17)
qed

theorem wrong_field_count_skipped_witness:
  "alive (start (new_reader False)) \<and> \<not> stop_flag (start (new_reader False))
   \<and> token_count line_short = 16
   \<and> run_iter no_digits (Data line_short) (start (new_reader False))
       = (start (new_reader False))\<lparr>printed := [Info_Reading, Warn_Skipping 16 (line_text line_short)]\<rparr>"
proof -
  have a: "alive (start (new_reader False))" and s: "\<not> stop_flag (start (new_reader False))"
    by (simp_all add: start_def new_reader_def)
  have t: "token_count line_short = 16" by code_simp
  have e: "line_text line_short \<noteq> []" by code_simp
  have p: "printed (start (new_reader False)) = [Info_Reading]"
    by (simp add: start_def new_reader_def)
  have ne: "token_count line_short \<noteq> N_FIELDS"
    unfolding t N_FIELDS_17 by simp
  note w = wrong_field_count_skipped [OF a s, of line_short no_digits]
  from w have imp: "token_count line_short \<noteq> N_FIELDS \<longrightarrow>
      run_iter no_digits (Data line_short) (start (new_reader False)) =
        (if line_text line_short = [] then start (new_reader False)
         else (start (new_reader False))\<lparr>printed := printed (start (new_reader False))
                @ [Warn_Skipping (token_count line_short) (line_text line_short)]\<rparr>)"
    by (rule conjunct1 [OF conjunct2])
  from imp ne have "run_iter no_digits (Data line_short) (start (new_reader False)) =
        (if line_text line_short = [] then start (new_reader False)
         else (start (new_reader False))\<lparr>printed := printed (start (new_reader False))
                @ [Warn_Skipping (token_count line_short) (line_text line_short)]\<rparr>)"
    by (rule mp)
  then have "run_iter no_digits (Data line_short) (start (new_reader False))
       = (start (new_reader False))\<lparr>printed := [Info_Reading, Warn_Skipping 16 (line_text line_short)]\<rparr>"
    unfolding t p using e by (simp only: if_False append.simps)
  with a s t show ?thesis by (intro conjI)
qed

text \<open>
  C3 as stated fails on the blank line: it has no token, and the loop skips it
  without printing anything.
\<close>

theorem blank_line_not_logged:
  "token_count [LF] = 0
   \<and> run_iter no_digits (Data [LF]) (start (new_reader False)) = start (new_reader False)"
  by code_simp

text \<open>
  C4, as the program has it. A pass of the running loop on a line of seventeen
  tokens of which one is no integer literal changes nothing at all: no row is
  built, the slot keeps its value, the thread goes on, and nothing is printed.
\<close>

theorem non_integer_skipped:
  assumes "alive r" and "\<not> stop_flag r"
    and "token_count line = N_FIELDS"
    and "\<exists>p \<in> set (parts_of (line_text line)). py_int td p = None"
  shows "run_iter td (Data line) r = r"
proof -
  from assms(4) have "those (map (py_int td) (parts_of (line_text line))) = None"
    by (simp only: those_map_None)
  then have "map_int td (parts_of (line_text line)) = Inl ValueError"
    by (simp add: map_int_def)
  with assms(1-3) show ?thesis
    by (simp add: run_iter_Data)
qed

theorem non_integer_skipped_witness:
  "alive (start (new_reader False)) \<and> \<not> stop_flag (start (new_reader False))
   \<and> token_count line_nonint = N_FIELDS
   \<and> py_int no_digits [120] = None
   \<and> run_iter no_digits (Data line_nonint) (start (new_reader False)) = start (new_reader False)"
proof -
  have a: "alive (start (new_reader False))" and s: "\<not> stop_flag (start (new_reader False))"
    by (simp_all add: start_def new_reader_def)
  have t: "token_count line_nonint = N_FIELDS" by code_simp
  have m: "[120] \<in> set (parts_of (line_text line_nonint))" by code_simp
  have n: "py_int no_digits [120] = None" by code_simp
  from m n have e: "\<exists>p \<in> set (parts_of (line_text line_nonint)). py_int no_digits p = None"
    by blast
  from non_integer_skipped [OF a s t e] a s t n show ?thesis by (intro conjI)
qed

text \<open>
  C4 as stated fails: the line with \<open>x\<close> as its first token is rejected by
  \<^verbatim>\<open>ValueError\<close>, and what the thread has printed is what it was before.
\<close>

theorem non_integer_not_logged:
  "token_count line_nonint = 17
   \<and> map_int no_digits (parts_of (line_text line_nonint)) = Inl ValueError
   \<and> printed (run_iter no_digits (Data line_nonint) (start (new_reader False)))
       = printed (start (new_reader False))"
  by code_simp

section \<open>The serial loop: line terminators\<close>

lemma utf8_ignore_single: "c < 128 \<Longrightarrow> utf8_ignore [c] = [c]"
  by simp

lemma utf8_ignore_snoc: "c < 128 \<Longrightarrow> utf8_ignore (bs @ [c]) = utf8_ignore bs @ [c]"
proof (induction bs rule: length_induct)
  case (1 bs)
  note c = \<open>c < 128\<close>
  have nc: "\<not> is_cont c" using c by (simp add: is_cont_def)
  have s: "utf8_ignore [c] = [c]" using c by simp
  have e: "utf8_ignore [] = []" by simp
  have IH: "utf8_ignore (ys @ [c]) = utf8_ignore ys @ [c]" if "length ys < length bs" for ys
    using 1 that by blast
  show ?case
  proof (cases bs)
    case Nil
    then show ?thesis using s by simp
  next
    case b1: (Cons b r1)
    have h1: "utf8_ignore (r1 @ [c]) = utf8_ignore r1 @ [c]"
      using IH [of r1] b1 by simp
    show ?thesis
    proof (cases r1)
      case Nil
      show ?thesis
        unfolding b1 Nil append_Cons append_Nil
        using c nc s e
        by (simp del: utf8_ignore.simps
              add: utf8_ignore.simps(2) [of b "[c]"] utf8_ignore.simps(2) [of b "[]"])
    next
      case b2: (Cons b2 r2)
      have h2: "utf8_ignore (r2 @ [c]) = utf8_ignore r2 @ [c]"
        using IH [of r2] b1 b2 by simp
      show ?thesis
      proof (cases r2)
        case Nil
        show ?thesis
          unfolding b1 b2 Nil append_Cons append_Nil
          using c nc s e h1 [unfolded b2 Nil append_Cons append_Nil]
          by (simp del: utf8_ignore.simps
                add: utf8_ignore.simps(2) [of b "[b2, c]"] utf8_ignore.simps(2) [of b "[b2]"])
      next
        case b3: (Cons b3 r3)
        have h3: "utf8_ignore (r3 @ [c]) = utf8_ignore r3 @ [c]"
          using IH [of r3] b1 b2 b3 by simp
        show ?thesis
        proof (cases r3)
          case Nil
          show ?thesis
            unfolding b1 b2 b3 Nil append_Cons append_Nil
            using c nc s e h1 [unfolded b2 b3 Nil append_Cons append_Nil]
              h2 [unfolded b3 Nil append_Cons append_Nil]
            by (simp del: utf8_ignore.simps
                  add: utf8_ignore.simps(2) [of b "[b2, b3, c]"]
                       utf8_ignore.simps(2) [of b "[b2, b3]"])
        next
          case b4: (Cons b4 r4)
          have h4: "utf8_ignore (r4 @ [c]) = utf8_ignore r4 @ [c]"
            using IH [of r4] b1 b2 b3 b4 by simp
          show ?thesis
            unfolding b1 b2 b3 b4 append_Cons
            using h1 [unfolded b2 b3 b4 append_Cons]
              h2 [unfolded b3 b4 append_Cons] h3 [unfolded b4 append_Cons] h4
            by (simp del: utf8_ignore.simps
                  add: utf8_ignore.simps(2) [of b "b2 # b3 # b4 # r4 @ [c]"]
                       utf8_ignore.simps(2) [of b "b2 # b3 # b4 # r4"])
        qed
      qed
    qed
  qed
qed


lemma decode_ignore_snoc:
  "(of_char ch :: nat) < 128 \<Longrightarrow> decode_ignore (p @ [ch]) = decode_ignore p @ [of_char ch]"
  by (simp add: decode_ignore_def utf8_ignore_snoc)

lemma rstrip_nl_snoc_lf: "rstrip_nl (t @ [10]) = rstrip_nl t"
  by (simp add: rstrip_nl_def)

lemma rstrip_nl_snoc_other: "c \<noteq> 10 \<Longrightarrow> rstrip_nl (t @ [c]) = t @ [c]"
  by (simp add: rstrip_nl_def)

lemma line_text_lf: "line_text (p @ [LF]) = rstrip_nl (decode_ignore p)"
  by (simp add: line_text_def strip_cr_def LF_def CR_def decode_ignore_snoc rstrip_nl_snoc_lf)

lemma line_text_lf_cr: "line_text (p @ [LF, CR]) = rstrip_nl (decode_ignore p)"
proof -
  have "strip_cr (p @ [LF, CR]) = p @ [LF]"
    by (simp add: strip_cr_def butlast_append)
  then show ?thesis
    by (simp add: line_text_def LF_def decode_ignore_snoc rstrip_nl_snoc_lf)
qed

lemma line_text_cr_lf: "line_text (p @ [CR, LF]) = decode_ignore p @ [13]"
proof -
  have "strip_cr (p @ [CR, LF]) = (p @ [CR]) @ [LF]"
    by (simp add: strip_cr_def LF_def CR_def)
  then have "line_text (p @ [CR, LF]) = rstrip_nl (decode_ignore (p @ [CR]))"
    unfolding line_text_def by (simp only: decode_ignore_snoc [of LF, unfolded LF_def, simplified, folded LF_def] rstrip_nl_snoc_lf)
  then show ?thesis
    by (simp add: CR_def decode_ignore_snoc rstrip_nl_snoc_other)
qed

lemma line_text_bare: "\<not> (p \<noteq> [] \<and> last p = CR) \<Longrightarrow> line_text p = rstrip_nl (decode_ignore p)"
  by (auto simp: line_text_def strip_cr_def)

lemma run_iter_line_text:
  "line_text l1 = line_text l2 \<Longrightarrow> run_iter td (Data l1) r = run_iter td (Data l2) r"
  by (cases "l1 = []"; cases "l2 = []") (auto simp: run_iter_def Let_def line_text_Nil)

text \<open>
  C6, as the program has it. A carriage return is cut off only when it is the
  last byte of the line, then every trailing line feed is cut off. So a payload
  followed by LF and a stray CR is processed as the payload followed by LF, and,
  when the payload does not itself end in a carriage return, as the bare payload.
  A carriage return before the line feed is not cut off: it stays at the end of
  the text.
\<close>

theorem terminators_stripped:
  "run_iter td (Data (p @ [LF, CR])) r = run_iter td (Data (p @ [LF])) r
   \<and> (\<not> (p \<noteq> [] \<and> last p = CR) \<longrightarrow>
         run_iter td (Data (p @ [LF])) r = run_iter td (Data p) r)
   \<and> line_text (p @ [CR, LF]) = decode_ignore p @ [13]"
proof -
  have "run_iter td (Data (p @ [LF, CR])) r = run_iter td (Data (p @ [LF])) r"
    by (rule run_iter_line_text) (simp only: line_text_lf line_text_lf_cr)
  moreover have "run_iter td (Data (p @ [LF])) r = run_iter td (Data p) r"
    if "\<not> (p \<noteq> [] \<and> last p = CR)"
    by (rule run_iter_line_text) (simp only: line_text_lf line_text_bare [OF that])
  ultimately show ?thesis
    using line_text_cr_lf by blast
qed

theorem terminators_stripped_witness:
  "\<not> (payload_semi \<noteq> [] \<and> last payload_semi = CR)
   \<and> run_iter no_digits (Data (payload_semi @ [LF])) (start (new_reader False))
       = run_iter no_digits (Data payload_semi) (start (new_reader False))
   \<and> run_iter no_digits (Data payload_semi) (start (new_reader False))
       = put_latest row_a (start (new_reader False))"
proof -
  have h: "\<not> (payload_semi \<noteq> [] \<and> last payload_semi = CR)" by code_simp
  have v: "run_iter no_digits (Data payload_semi) (start (new_reader False))
       = put_latest row_a (start (new_reader False))" by code_simp
  from terminators_stripped [of no_digits payload_semi "start (new_reader False)"]
  have "\<not> (payload_semi \<noteq> [] \<and> last payload_semi = CR) \<longrightarrow>
         run_iter no_digits (Data (payload_semi @ [LF])) (start (new_reader False))
           = run_iter no_digits (Data payload_semi) (start (new_reader False))"
    by (rule conjunct1 [OF conjunct2])
  from this h have "run_iter no_digits (Data (payload_semi @ [LF])) (start (new_reader False))
           = run_iter no_digits (Data payload_semi) (start (new_reader False))"
    by (rule mp)
  with h v show ?thesis by (intro conjI)
qed

text \<open>
  C6 as stated fails for CR-LF: the payload whose fields are each followed by a
  semicolon is accepted bare, and rejected with eighteen tokens when CR-LF ends it.
\<close>

theorem cr_lf_not_stripped:
  "latest_row (run_iter no_digits (Data payload_semi) (start (new_reader False))) = Some row_a
   \<and> token_count (payload_semi @ [CR, LF]) = 18
   \<and> latest_row (run_iter no_digits (Data (payload_semi @ [CR, LF])) (start (new_reader False))) = None"
  by code_simp

section \<open>The serial loop: accepted lines\<close>

declare nat_digits.simps [simp del]






























end
